theory Spec2Isabelle
  imports Complex_Main "HOL-Library.Sublist"
begin

section \<open>The transcript relay: the handler \<open>audio\<close> of \<open>app.py\<close>\<close>

text \<open>
  Strings are \<^typ>\<open>string\<close>; a \<^typ>\<open>char\<close> stands for one code point below 256, so
  the model covers Python strings over that range.

  The exceptions of the relay are values of Python's class \<open>Exception\<close>: the ones the
  handler's own statements raise (\<open>ConnectionClosed\<close> from the websocket, \<open>IndexError\<close>
  from \<open>alternatives[0]\<close>) and any other one the recognizer's stream raises, kept with
  its message.
\<close>

datatype exc = ConnectionClosed | IndexError | OtherException string

subsection \<open>The client channel\<close>

text \<open>
  The websocket object \<open>ws\<close> comes from the \<open>simple_websocket\<close> package. What the handler
  does on it is recorded in \<open>wire\<close>, oldest first: \<open>Frame s\<close> for a text frame that was
  delivered, \<open>CloseCall\<close> for a call of \<open>ws.close()\<close>. The client is the environment:
  \<open>sends_left = None\<close> is a client that stays, \<open>Some n\<close> one that is gone after \<open>n\<close>
  more frames. \<open>send\<close> and \<open>close\<close> on a closed connection raise \<open>ConnectionClosed\<close>.
\<close>

datatype ws_event = Frame string | CloseCall

record websocket =
  wire :: "ws_event list"
  sends_left :: "nat option"

definition connected :: "websocket \<Rightarrow> bool" where
  "connected w \<longleftrightarrow> sends_left w \<noteq> Some 0"

definition ws_send :: "websocket \<Rightarrow> string \<Rightarrow> websocket \<times> exc option" where
  "ws_send w s =
     (if connected w
      then (w\<lparr>wire := wire w @ [Frame s],
               sends_left := map_option (\<lambda>n. n - 1) (sends_left w)\<rparr>, None)
      else (w, Some ConnectionClosed))"

definition ws_close :: "websocket \<Rightarrow> websocket \<times> exc option" where
  "ws_close w =
     (if connected w
      then (w\<lparr>wire := wire w @ [CloseCall], sends_left := Some 0\<rparr>, None)
      else (w\<lparr>wire := wire w @ [CloseCall]\<rparr>, Some ConnectionClosed))"

subsection \<open>The recognizer's response stream\<close>

text \<open>
  A result has its alternatives (each one its transcript, best first) and its finality
  flag; a response is its list of results. The value of
  \<open>client.streaming_recognize(...)\<close> is consumed once by the \<open>for\<close> loop: it yields a
  response (\<open>Next\<close>), is exhausted (\<open>End\<close>) or raises (\<open>Fail\<close>); a call that raises at
  once is \<open>Fail\<close> at the head.
\<close>

record result =
  alternatives :: "string list"
  is_final :: bool

type_synonym response = "result list"

datatype resp_stream = End | Fail exc | Next response resp_stream

definition top_transcript :: "result \<Rightarrow> exc + string" where
  "top_transcript r = (case alternatives r of [] \<Rightarrow> Inl IndexError | t # _ \<Rightarrow> Inr t)"

text \<open>The inner loop \<open>for result in response.results\<close>.\<close>

fun send_results :: "result list \<Rightarrow> websocket \<Rightarrow> websocket \<times> exc option" where
  "send_results [] w = (w, None)"
| "send_results (r # rs) w =
     (case top_transcript r of
        Inl e \<Rightarrow> (w, Some e)
      | Inr transcript \<Rightarrow>
          (case (if is_final r then ws_send w (''[FINAL]'' @ transcript)
                 else ws_send w (''[INTERIM]'' @ transcript)) of
             (w', Some e) \<Rightarrow> (w', Some e)
           | (w', None) \<Rightarrow> send_results rs w'))"

text \<open>The drain loop \<open>for response in responses\<close>: the body of the \<open>try\<close>.\<close>

fun drain :: "resp_stream \<Rightarrow> websocket \<Rightarrow> websocket \<times> exc option" where
  "drain End w = (w, None)"
| "drain (Fail e) w = (w, Some e)"
| "drain (Next resp s) w =
     (case send_results resp w of
        (w', Some e) \<Rightarrow> (w', Some e)
      | (w', None) \<Rightarrow> drain s w')"

definition error_frame :: string where
  "error_frame = ''[ERROR] Speech recognition error occurred.''"

text \<open>
  \<open>try: ... except Exception as e: ...\<close> without the \<open>finally\<close>: the handler prints,
  sends the error frame inside its own \<open>try\<close> with a bare \<open>except: pass\<close>, and leaves no
  exception pending. The second component is the exception still pending afterwards.
\<close>

definition guarded_drain :: "resp_stream \<Rightarrow> websocket \<Rightarrow> websocket \<times> exc option" where
  "guarded_drain s w =
     (case drain s w of
        (w', None) \<Rightarrow> (w', None)
      | (w', Some e) \<Rightarrow> (fst (ws_send w' error_frame), None))"

text \<open>
  The whole statement with \<open>finally: ws.close()\<close>: an exception of the \<open>finally\<close> block
  replaces a pending one, otherwise the pending one is raised again.
\<close>

definition audio :: "resp_stream \<Rightarrow> websocket \<Rightarrow> websocket \<times> exc option" where
  "audio s w =
     (case guarded_drain s w of
        (w', pending) \<Rightarrow>
          (case ws_close w' of
             (w'', Some e) \<Rightarrow> (w'', Some e)
           | (w'', None) \<Rightarrow> (w'', pending)))"

text \<open>What the stream emits before it ends or fails, and how it ends.\<close>

fun emitted :: "resp_stream \<Rightarrow> result list" where
  "emitted End = []"
| "emitted (Fail e) = []"
| "emitted (Next resp s) = resp @ emitted s"

fun ending :: "resp_stream \<Rightarrow> exc option" where
  "ending End = None"
| "ending (Fail e) = Some e"
| "ending (Next resp s) = ending s"

definition frame_of :: "result \<Rightarrow> ws_event" where
  "frame_of r =
     Frame ((if is_final r then ''[FINAL]'' else ''[INTERIM]'') @ hd (alternatives r))"

definition enough_sends :: "websocket \<Rightarrow> nat \<Rightarrow> bool" where
  "enough_sends w n = (case sends_left w of None \<Rightarrow> True | Some k \<Rightarrow> n \<le> k)"

section \<open>Properties of the relay\<close>

lemma ws_send_wire:
  "wire (fst (ws_send w s)) = wire w @ (if connected w then [Frame s] else [])"
  by (simp add: ws_send_def)

lemma ws_send_no_close: "CloseCall \<notin> set (wire w) \<Longrightarrow> CloseCall \<notin> set (wire (fst (ws_send w s)))"
  by (simp add: ws_send_def)

lemma send_results_no_close:
  "CloseCall \<notin> set (wire w) \<Longrightarrow> CloseCall \<notin> set (wire (fst (send_results rs w)))"
proof (induction rs arbitrary: w)
  case Nil
  then show ?case by simp
next
  case (Cons r rs)
  show ?case
  proof (cases "top_transcript r")
    case (Inl e)
    with Cons.prems show ?thesis by simp
  next
    case (Inr t)
    let ?f = "(if is_final r then ''[FINAL]'' else ''[INTERIM]'') @ t"
    obtain w' x where sw: "ws_send w ?f = (w', x)" by (cases "ws_send w ?f")
    have nc: "CloseCall \<notin> set (wire w')"
      using ws_send_no_close [OF Cons.prems, of ?f] sw by simp
    show ?thesis
    proof (cases x)
      case None
      with Inr sw Cons.IH [OF nc] show ?thesis by (simp split: if_splits)
    next
      case (Some e)
      with Inr sw nc show ?thesis by (simp split: if_splits)
    qed
  qed
qed

lemma drain_no_close:
  "CloseCall \<notin> set (wire w) \<Longrightarrow> CloseCall \<notin> set (wire (fst (drain s w)))"
proof (induction s arbitrary: w)
  case End
  then show ?case by simp
next
  case (Fail e)
  then show ?case by simp
next
  case (Next resp s)
  obtain w' x where sr: "send_results resp w = (w', x)" by (cases "send_results resp w")
  have nc: "CloseCall \<notin> set (wire w')"
    using send_results_no_close [OF Next.prems, of resp] sr by simp
  show ?case
  proof (cases x)
    case None
    with sr Next.IH [OF nc] show ?thesis by simp
  next
    case (Some e)
    with sr nc show ?thesis by simp
  qed
qed

lemma guarded_drain_no_close:
  "CloseCall \<notin> set (wire w) \<Longrightarrow> CloseCall \<notin> set (wire (fst (guarded_drain s w)))"
proof -
  assume a: "CloseCall \<notin> set (wire w)"
  obtain w' x where d: "drain s w = (w', x)" by (cases "drain s w")
  have nc: "CloseCall \<notin> set (wire w')" using drain_no_close [OF a, of s] d by simp
  show ?thesis
  proof (cases x)
    case None
    with d nc show ?thesis by (simp add: guarded_drain_def)
  next
    case (Some e)
    with d ws_send_no_close [OF nc, of error_frame] show ?thesis
      by (simp add: guarded_drain_def)
  qed
qed

lemma audio_wire:
  "wire (fst (audio s w)) = wire (fst (guarded_drain s w)) @ [CloseCall]"
  by (cases "guarded_drain s w") (simp add: audio_def ws_close_def)

text \<open>
  Claim C2. On every exit path of the session (the response stream is exhausted, the
  client is gone, the upstream call or the loop raises) the handler calls \<open>ws.close()\<close>
  as its last action on the channel, and it calls it exactly once: for every response
  stream and every client, the record of a session that starts on a fresh channel is
  some frames followed by one \<open>CloseCall\<close>.
\<close>

theorem audio_closes_exactly_once:
  "\<exists>pre. wire (fst (audio s \<lparr>wire = [], sends_left = budget\<rparr>)) = pre @ [CloseCall]
         \<and> CloseCall \<notin> set pre
         \<and> length (filter (\<lambda>e. e = CloseCall) (wire (fst (audio s \<lparr>wire = [], sends_left = budget\<rparr>)))) = 1"
proof -
  let ?w = "\<lparr>wire = [], sends_left = budget\<rparr>"
  let ?pre = "wire (fst (guarded_drain s ?w))"
  have nc: "CloseCall \<notin> set ?pre"
    by (rule guarded_drain_no_close) simp
  have w: "wire (fst (audio s ?w)) = ?pre @ [CloseCall]"
    by (rule audio_wire)
  have "filter (\<lambda>e. e = CloseCall) ?pre = []"
    using nc by (auto simp: filter_empty_conv)
  with w nc show ?thesis by simp
qed

end
